theory Spec2Isabelle
  imports Main "HOL-Library.Sublist"
begin

section \<open>The \<open>oauth_providers\<close> table\<close>

text \<open>
  The schema declares one row per connection: a generated primary key, the owning user
  (a \<open>uuid\<close> that references \<open>users.id\<close>), the provider, the provider-side user id
  (\<open>varchar(255)\<close>), the access token, a nullable refresh token, a nullable expiry
  timestamp, a nullable array of scopes and two timestamps. A nullable column is an
  \<open>option\<close>; a timestamp is a number of milliseconds since the epoch; a string is the
  list of the bytes of its UTF-8 encoding; a \<open>uuid\<close> value is its canonical text. The
  table is the list of its rows in storage order.
\<close>

datatype provider = linkedin | google

record oauth_row =
  rowId :: string
  userId :: string
  provider :: provider
  providerUserId :: string
  accessToken :: string
  refreshToken :: "string option"
  tokenExpiresAt :: "int option"
  scopes :: "string list option"
  createdAt :: int
  updatedAt :: int

type_synonym oauth_table = "oauth_row list"

section \<open>The \<open>users\<close> table\<close>

text \<open>
  Modelled from the spec: the \<open>users\<close> table, whose schema file is not among the
  sources. The spec's User is an identity record with a unique email, a display name, an
  optional password hash and a preference bag; the service reads and writes the columns
  \<open>id\<close>, \<open>email\<close>, \<open>name\<close>, \<open>passwordHash\<close>, \<open>preferences\<close>, \<open>createdAt\<close> and
  \<open>updatedAt\<close>.
\<close>

record preferences =
  brand_voice :: "string option"
  tone :: "string option"
  default_hashtags :: "string list option"
  banned_phrases :: "string list option"

record user_row =
  u_id :: string
  u_email :: string
  u_name :: string
  u_passwordHash :: "string option"
  u_preferences :: preferences
  u_createdAt :: int
  u_updatedAt :: int

type_synonym users_table = "user_row list"

section \<open>What the columns accept\<close>

text \<open>
  The database's input of a \<open>uuid\<close>: an optional opening brace, sixteen bytes of two
  hexadecimal digits each, an optional hyphen after every second byte but the last, the
  closing brace when there was an opening one, and nothing more. The value is the
  canonical text: lower-case digits in groups of 8, 4, 4, 4 and 12. \<open>None\<close> is the
  error \<open>invalid input syntax for type uuid\<close>.
\<close>

definition isxdigit :: "char \<Rightarrow> bool" where
  "isxdigit c = (c \<in> set ''0123456789abcdefABCDEF'')"

definition lowerHex :: "char \<Rightarrow> char" where
  "lowerHex c =
     (if c = CHR ''A'' then CHR ''a'' else if c = CHR ''B'' then CHR ''b''
      else if c = CHR ''C'' then CHR ''c'' else if c = CHR ''D'' then CHR ''d''
      else if c = CHR ''E'' then CHR ''e'' else if c = CHR ''F'' then CHR ''f''
      else c)"

text \<open>
  \<open>uuidBytes n s\<close> reads the last \<open>n\<close> of the sixteen bytes from \<open>s\<close>: the digits
  read, in lower case, and the rest of the text.
\<close>

primrec uuidBytes :: "nat \<Rightarrow> string \<Rightarrow> (string \<times> string) option" where
  "uuidBytes 0 s = Some ([], s)"
| "uuidBytes (Suc n) s =
     (case s of
        a # b # rest \<Rightarrow>
          if isxdigit a \<and> isxdigit b
          then (let i = 15 - n;
                    rest' = (case rest of
                               c # r \<Rightarrow> if c = CHR ''-'' \<and> i mod 2 = 1 \<and> i < 15 then r
                                        else rest
                             | [] \<Rightarrow> rest)
                in case uuidBytes n rest' of
                     None \<Rightarrow> None
                   | Some (ds, r) \<Rightarrow> Some (lowerHex a # lowerHex b # ds, r))
          else None
      | _ \<Rightarrow> None)"

definition uuidText :: "string \<Rightarrow> string" where
  "uuidText ds =
     take 8 ds @ ''-'' @ take 4 (drop 8 ds) @ ''-'' @ take 4 (drop 12 ds) @ ''-'' @
     take 4 (drop 16 ds) @ ''-'' @ drop 20 ds"

definition uuidIn :: "string \<Rightarrow> string option" where
  "uuidIn s =
     (let braces = (case s of c # _ \<Rightarrow> c = CHR ''{'' | [] \<Rightarrow> False);
          src = (if braces then tl s else s)
      in case uuidBytes 16 src of
           None \<Rightarrow> None
         | Some (ds, rest) \<Rightarrow>
             if rest = (if braces then ''}'' else []) then Some (uuidText ds) else None)"

text \<open>
  A \<open>text\<close> value cannot hold the zero byte. A \<open>varchar(n)\<close> value has at most \<open>n\<close>
  characters; a longer one is refused unless the characters in excess are all spaces,
  and then it is cut to \<open>n\<close> characters. A character is a byte that is not a UTF-8
  continuation byte, with the continuation bytes that follow it.
\<close>

definition textIn :: "string \<Rightarrow> bool" where
  "textIn s = (CHR 0x00 \<notin> set s)"

fun textOptIn :: "string option \<Rightarrow> bool" where
  "textOptIn None = True"
| "textOptIn (Some s) = textIn s"

definition continuationByte :: "char \<Rightarrow> bool" where
  "continuationByte c = (128 \<le> (of_char c :: nat) \<and> (of_char c :: nat) < 192)"

definition charLength :: "string \<Rightarrow> nat" where
  "charLength s = length (filter (\<lambda>c. \<not> continuationByte c) s)"

fun takeChars :: "nat \<Rightarrow> string \<Rightarrow> string" where
  "takeChars n [] = []"
| "takeChars n (c # cs) =
     (if continuationByte c then c # takeChars n cs
      else (case n of 0 \<Rightarrow> [] | Suc m \<Rightarrow> c # takeChars m cs))"

definition varcharIn :: "nat \<Rightarrow> string \<Rightarrow> string option" where
  "varcharIn n s =
     (if charLength s \<le> n then Some s
      else let kept = takeChars n s in
           if list_all (\<lambda>c. c = CHR '' '') (drop (length kept) s) then Some kept
           else None)"

text \<open>
  A \<open>Date\<close> reaches a \<open>timestamp\<close> column as the text of \<open>toISOString()\<close>. A \<open>Date\<close>
  built from a missing number, or from a time more than 8 640 000 000 000 000 ms from
  the epoch, is invalid and \<open>toISOString()\<close> raises a \<open>RangeError\<close>. For a year outside
  0001 to 9999 the text has the year 0000 or a signed six-digit year, which the
  database's timestamp input refuses. \<open>dateParam\<close> gives the timestamp written, or the
  error.
\<close>

definition validDate :: "int \<Rightarrow> bool" where
  "validDate t = (- 8640000000000000 \<le> t \<and> t \<le> 8640000000000000)"

definition timestampIn :: "int \<Rightarrow> bool" where
  "timestampIn t = (- 62135596800000 \<le> t \<and> t \<le> 253402300799999)"

definition dateParam :: "int option \<Rightarrow> string + int" where
  "dateParam d =
     (case d of
        None \<Rightarrow> Inl ''RangeError: Invalid time value''
      | Some t \<Rightarrow>
          if \<not> validDate t then Inl ''RangeError: Invalid time value''
          else if \<not> timestampIn t then Inl ''date/time field value out of range''
          else Inr t)"

section \<open>Statements on the \<open>oauth_providers\<close> table\<close>

text \<open>
  The \<open>where\<close> clause used by every query of the service:
  \<open>and(eq(userId, u), eq(provider, p))\<close>. The comparison is one of \<open>uuid\<close> values: the
  parameter is read as a \<open>uuid\<close> and compared with the stored value.
\<close>

definition forUserProvider :: "string \<Rightarrow> provider \<Rightarrow> oauth_row \<Rightarrow> bool" where
  "forUserProvider u p r = (uuidIn u = Some (userId r) \<and> provider r = p)"

text \<open>
  \<open>insert ... returning\<close>. The database checks the values against the column types
  (the \<open>text\<close> columns, \<open>provider_user_id varchar(255)\<close>), then the foreign key
  \<open>user_id\<close> to \<open>users.id\<close>, the primary key and the uniqueness constraint on
  (user, provider); a violation raises. The row returned is the row stored.
\<close>

definition insertRow ::
  "users_table \<Rightarrow> oauth_table \<Rightarrow> oauth_row \<Rightarrow> string + (oauth_row \<times> oauth_table)" where
  "insertRow usrs tbl r =
     (if \<not> (textIn (providerUserId r) \<and> textIn (accessToken r) \<and> textOptIn (refreshToken r)
             \<and> (case scopes r of None \<Rightarrow> True | Some ss \<Rightarrow> list_all textIn ss))
        then Inl ''invalid byte sequence for encoding UTF8: 0x00''
      else case varcharIn 255 (providerUserId r) of
        None \<Rightarrow> Inl ''value too long for type character varying(255)''
      | Some pid \<Rightarrow>
          if \<not> list_ex (\<lambda>x. u_id x = userId r) usrs
            then Inl ''insert or update on table oauth_providers violates foreign key constraint''
          else if list_ex (\<lambda>x. rowId x = rowId r) tbl
            then Inl ''duplicate key value violates unique constraint oauth_providers_pkey''
          else if list_ex (\<lambda>x. userId x = userId r \<and> provider x = provider r) tbl
            then Inl ''duplicate key value violates unique constraint uniqueUserProvider''
          else Inr (r\<lparr>providerUserId := pid\<rparr>, tbl @ [r\<lparr>providerUserId := pid\<rparr>]))"

text \<open>
  \<open>update ... set ... where ... returning\<close> rewrites every row that satisfies the
  condition and returns the rewritten rows.
\<close>

definition updateWhere ::
  "(oauth_row \<Rightarrow> bool) \<Rightarrow> (oauth_row \<Rightarrow> oauth_row) \<Rightarrow> oauth_table
     \<Rightarrow> oauth_row list \<times> oauth_table" where
  "updateWhere c f tbl = (map f (filter c tbl), map (\<lambda>r. if c r then f r else r) tbl)"

text \<open>\<open>delete ... where\<close> removes every row that satisfies the condition.\<close>

definition deleteWhere :: "(oauth_row \<Rightarrow> bool) \<Rightarrow> oauth_table \<Rightarrow> oauth_table" where
  "deleteWhere c tbl = filter (\<lambda>r. \<not> c r) tbl"

text \<open>
  The array destructuring \<open>const [x] = rows\<close>: the first element, \<open>undefined\<close> when
  there is none.
\<close>

fun firstOf :: "'a list \<Rightarrow> 'a option" where
  "firstOf [] = None"
| "firstOf (x # _) = Some x"

section \<open>OAuthService: the credential store\<close>

text \<open>JavaScript truthiness of an optional string: \<open>undefined\<close> and \<open>''\<close> are falsy.\<close>

fun truthy :: "string option \<Rightarrow> bool" where
  "truthy None = False"
| "truthy (Some s) = (s \<noteq> [])"

text \<open>
  The data of a store. \<open>expiresIn\<close> is a number of seconds, \<open>None\<close> when the value that
  arrives is \<open>undefined\<close>; numbers are integers.
\<close>

record store_data =
  data_providerUserId :: string
  data_accessToken :: string
  data_refreshToken :: "string option"
  data_expiresIn :: "int option"
  data_scopes :: "string list"

text \<open>
  \<open>getOAuthProvider\<close>: \<open>select ... where ... limit 1\<close>, the first matching row or
  \<open>null\<close>.
\<close>

definition getOAuthProvider :: "oauth_table \<Rightarrow> string \<Rightarrow> provider \<Rightarrow> oauth_row option" where
  "getOAuthProvider tbl u p = find (forUserProvider u p) tbl"

text \<open>
  \<open>storeOAuthProvider\<close>. The clock (\<open>now\<close>, standing for \<open>Date.now()\<close>, \<open>new Date()\<close>
  and the database's \<open>defaultNow()\<close> of one call), the key the database generates for a
  new row (\<open>newId\<close>) and the users table the foreign key refers to are parameters. The
  expiry is the \<open>Date\<close> of the clock plus \<open>expiresIn * 1000\<close>. The \<open>select\<close> raises when
  the user id is not a \<open>uuid\<close>. \<open>storeSet\<close> is the \<open>set\<close> clause of the update: the
  access token, the refresh token (the new one when truthy, the one of the row found
  otherwise), the expiry, the scopes and \<open>updatedAt\<close>; the provider user id is not among
  the columns written. The update applies to the rows with the key of the row found,
  and the first row it returns is the result; the insert returns the new row. Either
  statement raises, and writes nothing, when a date or a text it is given is not
  accepted.
\<close>

definition storeSet :: "int \<Rightarrow> int \<Rightarrow> store_data \<Rightarrow> oauth_row \<Rightarrow> oauth_row \<Rightarrow> oauth_row" where
  "storeSet updated expires d existing r =
     r\<lparr>accessToken := data_accessToken d,
       refreshToken := (if truthy (data_refreshToken d) then data_refreshToken d
                        else refreshToken existing),
       tokenExpiresAt := Some expires,
       scopes := Some (data_scopes d),
       updatedAt := updated\<rparr>"

definition storeOAuthProvider ::
  "int \<Rightarrow> string \<Rightarrow> users_table \<Rightarrow> oauth_table \<Rightarrow> string \<Rightarrow> provider \<Rightarrow> store_data
     \<Rightarrow> string + (oauth_row option \<times> oauth_table)" where
  "storeOAuthProvider now newId usrs tbl u p d =
     (let tokenExpiresAt = map_option (\<lambda>n. now + n * 1000) (data_expiresIn d) in
      case uuidIn u of
        None \<Rightarrow> Inl ''invalid input syntax for type uuid''
      | Some uid \<Rightarrow>
          (case find (forUserProvider u p) tbl of
             Some existing \<Rightarrow>
               (case dateParam tokenExpiresAt of
                  Inl e \<Rightarrow> Inl e
                | Inr expires \<Rightarrow>
                    (case dateParam (Some now) of
                       Inl e \<Rightarrow> Inl e
                     | Inr updated \<Rightarrow>
                         if \<not> (textIn (data_accessToken d) \<and> textOptIn (data_refreshToken d)
                                 \<and> list_all textIn (data_scopes d))
                         then Inl ''invalid byte sequence for encoding UTF8: 0x00''
                         else (case updateWhere (\<lambda>r. rowId r = rowId existing)
                                      (storeSet updated expires d existing) tbl of
                                 (rows, tbl') \<Rightarrow> Inr (firstOf rows, tbl'))))
           | None \<Rightarrow>
               (case dateParam tokenExpiresAt of
                  Inl e \<Rightarrow> Inl e
                | Inr expires \<Rightarrow>
                    (let r = \<lparr>rowId = newId, userId = uid, provider = p,
                              providerUserId = data_providerUserId d,
                              accessToken = data_accessToken d,
                              refreshToken = data_refreshToken d,
                              tokenExpiresAt = Some expires,
                              scopes = Some (data_scopes d),
                              createdAt = now, updatedAt = now\<rparr>
                     in case insertRow usrs tbl r of
                          Inl e \<Rightarrow> Inl e
                        | Inr (stored, tbl') \<Rightarrow> Inr (Some stored, tbl')))))"

text \<open>\<open>isTokenExpired\<close>: a missing expiry counts as expired.\<close>

definition isTokenExpired :: "int \<Rightarrow> int option \<Rightarrow> bool" where
  "isTokenExpired now expiresAt =
     (case expiresAt of None \<Rightarrow> True | Some t \<Rightarrow> now \<ge> t)"

section \<open>OAuthService: the provider adapter\<close>

text \<open>The LinkedIn part of the configuration object.\<close>

record linkedin_config =
  clientId :: string
  clientSecret :: string
  callbackUrl :: string

text \<open>
  \<open>URLSearchParams.toString()\<close> is platform code: the
  \<open>application/x-www-form-urlencoded\<close> serializer of the URL standard. A string is the
  list of the bytes of its UTF-8 encoding. A space becomes \<open>+\<close>; an ASCII letter or
  digit and \<open>*\<close>, \<open>-\<close>, \<open>.\<close>, \<open>_\<close> stay; every other byte becomes \<open>%\<close> and two
  upper-case hexadecimal digits. Pairs are written \<open>name=value\<close> and joined by \<open>&\<close>.
\<close>

definition unreservedChar :: "char \<Rightarrow> bool" where
  "unreservedChar c =
     (c \<in> set ''ABCDEFGHIJKLMNOPQRSTUVWXYZabcdefghijklmnopqrstuvwxyz0123456789*-._'')"

definition hexDigit :: "nat \<Rightarrow> char" where
  "hexDigit n = ''0123456789ABCDEF'' ! (n mod 16)"

definition encodeByte :: "char \<Rightarrow> string" where
  "encodeByte c =
     (if c = CHR '' '' then ''+''
      else if unreservedChar c then [c]
      else [CHR ''%'', hexDigit (of_char c div 16), hexDigit (of_char c mod 16)])"

definition urlencode :: "string \<Rightarrow> string" where
  "urlencode s = concat (map encodeByte s)"

fun joinAmp :: "string list \<Rightarrow> string" where
  "joinAmp [] = []"
| "joinAmp [x] = x"
| "joinAmp (x # y # ys) = x @ ''&'' @ joinAmp (y # ys)"

definition serializeParams :: "(string \<times> string) list \<Rightarrow> string" where
  "serializeParams ps = joinAmp (map (\<lambda>(k, v). urlencode k @ ''='' @ urlencode v) ps)"

definition getLinkedInAuthUrl :: "linkedin_config \<Rightarrow> string \<Rightarrow> string" where
  "getLinkedInAuthUrl cfg state =
     ''https://www.linkedin.com/oauth/v2/authorization?'' @
     serializeParams
       [(''response_type'', ''code''),
        (''client_id'', clientId cfg),
        (''redirect_uri'', callbackUrl cfg),
        (''state'', state),
        (''scope'', ''openid profile email w_member_social'')]"

text \<open>
  An HTTP exchange with the provider is a parameter of the model: \<open>fetch\<close> either rejects
  (\<open>Inl\<close>, the error message) or resolves to a response with its \<open>ok\<close> flag, its body as
  text and its body as JSON (\<open>None\<close> when \<open>response.json()\<close> throws).
\<close>

record 'j http_response =
  resp_ok :: bool
  resp_text :: string
  resp_json :: "'j option"

text \<open>
  The token endpoint's payload and the fields the service returns from it;
  \<open>expires_in\<close> is \<open>None\<close> when the payload has none.
\<close>

record token_json =
  access_token :: string
  expires_in :: "int option"
  refresh_token :: "string option"
  scope :: "string option"

record token_data =
  td_accessToken :: string
  td_expiresIn :: "int option"
  td_refreshToken :: "string option"

text \<open>The user-info endpoint's payload and the profile the service returns from it.\<close>

record userinfo_json =
  sub :: string
  ui_email :: string
  ui_name :: "string option"
  given_name :: "string option"
  family_name :: "string option"

record profile =
  profile_id :: string
  profile_email :: string
  profile_name :: string

definition jsonParseError :: string where
  "jsonParseError = ''Unexpected token in JSON''"

definition exchangeLinkedInCode ::
  "(string \<Rightarrow> string + token_json http_response) \<Rightarrow> string \<Rightarrow> string + token_data" where
  "exchangeLinkedInCode fetchToken code =
     (case fetchToken code of
        Inl e \<Rightarrow> Inl e
      | Inr response \<Rightarrow>
          if \<not> resp_ok response
          then Inl (''Failed to exchange code: '' @ resp_text response)
          else (case resp_json response of
                  None \<Rightarrow> Inl jsonParseError
                | Some data \<Rightarrow>
                    Inr \<lparr>td_accessToken = access_token data,
                         td_expiresIn = expires_in data,
                         td_refreshToken = refresh_token data\<rparr>))"

text \<open>
  A template literal renders a missing value as the text \<open>undefined\<close>.
\<close>

fun templateText :: "string option \<Rightarrow> string" where
  "templateText None = ''undefined''"
| "templateText (Some s) = s"

definition getLinkedInProfile ::
  "(string \<Rightarrow> string + userinfo_json http_response) \<Rightarrow> string \<Rightarrow> string + profile" where
  "getLinkedInProfile fetchUserinfo token =
     (case fetchUserinfo token of
        Inl e \<Rightarrow> Inl e
      | Inr userResponse \<Rightarrow>
          if \<not> resp_ok userResponse
          then Inl ''Failed to fetch LinkedIn profile''
          else (case resp_json userResponse of
                  None \<Rightarrow> Inl jsonParseError
                | Some userData \<Rightarrow>
                    Inr \<lparr>profile_id = sub userData,
                         profile_email = ui_email userData,
                         profile_name =
                           (let fallback = templateText (given_name userData) @ '' '' @
                                           templateText (family_name userData)
                            in case ui_name userData of
                                 None \<Rightarrow> fallback
                               | Some n \<Rightarrow> if n = [] then fallback else n)\<rparr>))"

section \<open>OAuthController\<close>

text \<open>
  The value \<open>JSON.parse\<close> returns for the decoded state, and the property read
  \<open>decoded.userId\<close>: reading a property of \<open>null\<close> throws a \<open>TypeError\<close>, an object
  gives the property's value or \<open>undefined\<close>, every other value gives \<open>undefined\<close>
  for \<open>userId\<close>. The properties of an object are an association list.
\<close>

datatype json =
    JNull
  | JBool bool
  | JNum int
  | JStr string
  | JArr "json list"
  | JObj "(string \<times> json) list"

fun getProp :: "json \<Rightarrow> string \<Rightarrow> string + json option" where
  "getProp JNull k = Inl ''TypeError: Cannot read properties of null''"
| "getProp (JObj kvs) k = Inr (map_of kvs k)"
| "getProp _ k = Inr None"

text \<open>
  What a handler depends on besides the connections table: the provider's two endpoints, the
  decoding of the state (\<open>JSON.parse(Buffer.from(state, 'base64').toString('utf-8'))\<close>,
  \<open>None\<close> when it throws), its encoding
  (\<open>Buffer.from(JSON.stringify({state, userId})).toString('base64')\<close>), the random
  string of \<open>generateRandomString(32)\<close>, the clock, the key of a new row, the users
  table (read by the foreign key alone) and the configuration.
\<close>

record env =
  fetchToken :: "string \<Rightarrow> string + token_json http_response"
  fetchUserinfo :: "string \<Rightarrow> string + userinfo_json http_response"
  parseState :: "string \<Rightarrow> json option"
  encodeState :: "string \<Rightarrow> string \<Rightarrow> string"
  randomString :: string
  currentTime :: int
  generatedId :: string
  usersTable :: users_table
  linkedinConfig :: linkedin_config

text \<open>The verified session of a request, and the query of the callback.\<close>

record jwt_payload =
  jwt_userId :: string
  jwt_email :: string

record request =
  user :: "jwt_payload option"
  query_code :: "string option"
  query_state :: "string option"

text \<open>
  \<open>request.user?.userId\<close> as the guards of the handlers test it: the user id of the
  session when there is one and it is not the empty string.
\<close>

definition requestUserId :: "request \<Rightarrow> string option" where
  "requestUserId req =
     (case user req of
        None \<Rightarrow> None
      | Some u \<Rightarrow> if jwt_userId u = [] then None else Some (jwt_userId u))"

text \<open>
  The data of the status reply. A key the reply does not carry, or carries as
  \<open>undefined\<close>, is \<open>None\<close>; a key whose value may be \<open>null\<close> has an \<open>option\<close> inside.
\<close>

record status_data =
  connected :: bool
  canPost :: "bool option"
  expiresAt :: "int option option"
  status_scopes :: "string list option option"
  needsRefresh :: "bool option"

datatype body =
    ErrorBody string string "string option"
  | ConnectData string string
  | CallbackData string string string string
  | StatusData status_data
  | MessageBody string

record reply =
  status :: nat
  payload :: body

definition unauthorized :: reply where
  "unauthorized =
     \<lparr>status = 401, payload = ErrorBody ''Unauthorized'' ''Authentication required'' None\<rparr>"

definition linkedInConnect :: "env \<Rightarrow> request \<Rightarrow> reply" where
  "linkedInConnect e req =
     (case requestUserId req of
        None \<Rightarrow> unauthorized
      | Some uid \<Rightarrow>
          let state = randomString e;
              stateWithUser = encodeState e state uid;
              authUrl = getLinkedInAuthUrl (linkedinConfig e) stateWithUser
          in \<lparr>status = 200, payload = ConnectData authUrl stateWithUser\<rparr>)"

text \<open>
  The callback. The decoded \<open>userId\<close> is whatever the state carried; it reaches the
  store unchecked. The column \<open>user_id\<close> is \<open>uuid not null\<close>, so for a value that is
  not a string the database raises, as the store does for a string that is not a
  \<open>uuid\<close>, and the handler's \<open>catch\<close> answers 500.
\<close>

definition callbackScopes :: "string list" where
  "callbackScopes = [''openid'', ''profile'', ''email'', ''w_member_social'']"

definition badRequest :: "string \<Rightarrow> reply" where
  "badRequest m = \<lparr>status = 400, payload = ErrorBody ''Bad Request'' m None\<rparr>"

definition callbackFailed :: "string \<Rightarrow> reply" where
  "callbackFailed m =
     \<lparr>status = 500,
      payload = ErrorBody ''Internal Server Error'' ''Failed to connect LinkedIn account''
                  (Some m)\<rparr>"

definition storeForDecoded ::
  "env \<Rightarrow> oauth_table \<Rightarrow> json option \<Rightarrow> store_data
     \<Rightarrow> string + (oauth_row option \<times> oauth_table)" where
  "storeForDecoded e tbl userIdValue d =
     (case userIdValue of
        Some (JStr u) \<Rightarrow> storeOAuthProvider (currentTime e) (generatedId e) (usersTable e) tbl u linkedin d
      | _ \<Rightarrow> Inl ''invalid value for column user_id'')"

text \<open>
  The guard \<open>!code || !state\<close>: both parameters when both are present and not empty.
\<close>

definition codeAndState :: "request \<Rightarrow> (string \<times> string) option" where
  "codeAndState req =
     (case (query_code req, query_state req) of
        (Some code, Some state) \<Rightarrow> if code = [] \<or> state = [] then None else Some (code, state)
      | _ \<Rightarrow> None)"

definition linkedInCallback :: "env \<Rightarrow> oauth_table \<Rightarrow> request \<Rightarrow> reply \<times> oauth_table" where
  "linkedInCallback e tbl req =
     (case codeAndState req of
        None \<Rightarrow> (badRequest ''Missing code or state parameter'', tbl)
      | Some (code, state) \<Rightarrow>
          (case parseState e state of
             None \<Rightarrow> (badRequest ''Invalid state parameter'', tbl)
           | Some decoded \<Rightarrow>
               (case getProp decoded ''userId'' of
                  Inl _ \<Rightarrow> (badRequest ''Invalid state parameter'', tbl)
                | Inr userIdValue \<Rightarrow>
                    (case exchangeLinkedInCode (fetchToken e) code of
                       Inl err \<Rightarrow> (callbackFailed err, tbl)
                     | Inr tokenData \<Rightarrow>
                         (case getLinkedInProfile (fetchUserinfo e) (td_accessToken tokenData) of
                            Inl err \<Rightarrow> (callbackFailed err, tbl)
                          | Inr prof \<Rightarrow>
                              (case storeForDecoded e tbl userIdValue
                                      \<lparr>data_providerUserId = profile_id prof,
                                       data_accessToken = td_accessToken tokenData,
                                       data_refreshToken = td_refreshToken tokenData,
                                       data_expiresIn = td_expiresIn tokenData,
                                       data_scopes = callbackScopes\<rparr> of
                                 Inl err \<Rightarrow> (callbackFailed err, tbl)
                               | Inr (_, tbl') \<Rightarrow>
                                   (\<lparr>status = 200,
                                     payload =
                                       CallbackData ''LinkedIn account connected successfully''
                                         ''linkedin'' (profile_email prof) (profile_name prof)\<rparr>,
                                    tbl')))))))"

definition linkedInStatus :: "env \<Rightarrow> oauth_table \<Rightarrow> request \<Rightarrow> reply" where
  "linkedInStatus e tbl req =
     (case requestUserId req of
        None \<Rightarrow> unauthorized
      | Some uid \<Rightarrow>
          (case getOAuthProvider tbl uid linkedin of
             None \<Rightarrow>
               \<lparr>status = 200,
                payload = StatusData \<lparr>connected = False, canPost = Some False,
                                      expiresAt = None, status_scopes = None,
                                      needsRefresh = None\<rparr>\<rparr>
           | Some prov \<Rightarrow>
               let isExpired = isTokenExpired (currentTime e) (tokenExpiresAt prov) in
               \<lparr>status = 200,
                payload = StatusData
                  \<lparr>connected = True,
                   canPost = (if \<not> isExpired
                              then map_option (\<lambda>ss. ''w_member_social'' \<in> set ss) (scopes prov)
                              else Some False),
                   expiresAt = Some (tokenExpiresAt prov),
                   status_scopes = Some (scopes prov),
                   needsRefresh = Some isExpired\<rparr>\<rparr>))"

definition linkedInDisconnect :: "oauth_table \<Rightarrow> request \<Rightarrow> reply \<times> oauth_table" where
  "linkedInDisconnect tbl req =
     (case requestUserId req of
        None \<Rightarrow> (unauthorized, tbl)
      | Some uid \<Rightarrow>
          (\<lparr>status = 200,
            payload = MessageBody ''LinkedIn account disconnected successfully''\<rparr>,
           deleteWhere (forUserProvider uid linkedin) tbl))"

text \<open>
  An environment whose token endpoint answers with another \<open>scope\<close> field, everything
  else as before: the means to say that the handler does not read that field.
\<close>

definition withScope :: "(token_json \<Rightarrow> string option) \<Rightarrow> env \<Rightarrow> env" where
  "withScope g e =
     e\<lparr>fetchToken := (\<lambda>code. map_sum id
          (\<lambda>resp. resp\<lparr>resp_json := map_option (\<lambda>j. j\<lparr>scope := g j\<rparr>) (resp_json resp)\<rparr>)
          (fetchToken e code))\<rparr>"

section \<open>AuthService and AuthController\<close>


text \<open>
  The password hashing library is a parameter: \<open>bcrypt.hash(password, rounds)\<close> and
  \<open>bcrypt.compare(password, hash)\<close>.
\<close>

record bcrypt =
  bcrypt_hash :: "string \<Rightarrow> nat \<Rightarrow> string"
  bcrypt_compare :: "string \<Rightarrow> string \<Rightarrow> bool"



definition verifyPassword :: "bcrypt \<Rightarrow> string \<Rightarrow> string \<Rightarrow> bool" where
  "verifyPassword bc password hash = bcrypt_compare bc password hash"



definition login :: "bcrypt \<Rightarrow> users_table \<Rightarrow> string \<Rightarrow> string \<Rightarrow> string + user_row" where
  "login bc tbl email password =
     (case find (\<lambda>x. u_email x = email) tbl of
        None \<Rightarrow> Inl ''Invalid email or password''
      | Some usr \<Rightarrow>
          (case u_passwordHash usr of
             None \<Rightarrow> Inl ''Password not set for this user''
           | Some hash \<Rightarrow>
               if hash = [] then Inl ''Password not set for this user''
               else if \<not> verifyPassword bc password hash
                 then Inl ''Invalid email or password''
               else Inr usr))"

text \<open>
  The login handler. The body's two fields are present strings or not (\<open>None\<close>); the
  schema asks for an email address, decided by the validation library's test
  \<open>isEmail\<close>, and for a password of at least one character. \<open>sign\<close> is the JWT
  library's signature of the payload.
\<close>

record login_body =
  body_email :: "string option"
  body_password :: "string option"

definition loginSchema :: "(string \<Rightarrow> bool) \<Rightarrow> login_body \<Rightarrow> string list + (string \<times> string)" where
  "loginSchema isEmail b =
     (let emailIssues = (case body_email b of
                           None \<Rightarrow> [''Required'']
                         | Some em \<Rightarrow> if isEmail em then [] else [''Invalid email address'']);
          passwordIssues = (case body_password b of
                              None \<Rightarrow> [''Required'']
                            | Some pw \<Rightarrow> if length pw \<ge> 1 then [] else [''Password is required''])
      in case (body_email b, body_password b) of
           (Some em, Some pw) \<Rightarrow>
             if emailIssues @ passwordIssues = [] then Inr (em, pw)
             else Inl (emailIssues @ passwordIssues)
         | _ \<Rightarrow> Inl (emailIssues @ passwordIssues))"

datatype auth_body =
    ValidationError "string list"
  | AuthError string string
  | LoginData string string string string string

record auth_reply =
  auth_status :: nat
  auth_payload :: auth_body

definition AuthController_login ::
  "bcrypt \<Rightarrow> (string \<Rightarrow> bool) \<Rightarrow> (jwt_payload \<Rightarrow> string) \<Rightarrow> users_table \<Rightarrow> login_body
     \<Rightarrow> auth_reply" where
  "AuthController_login bc isEmail sign tbl b =
     (case loginSchema isEmail b of
        Inl issues \<Rightarrow> \<lparr>auth_status = 400, auth_payload = ValidationError issues\<rparr>
      | Inr (email, password) \<Rightarrow>
          (case login bc tbl email password of
             Inr usr \<Rightarrow>
               let token = sign \<lparr>jwt_userId = u_id usr, jwt_email = u_email usr\<rparr> in
               \<lparr>auth_status = 200,
                auth_payload = LoginData ''Login successful''
                                 (u_id usr) (u_email usr) (u_name usr) token\<rparr>
           | Inl message \<Rightarrow>
               if message = ''Invalid email or password''
                  \<or> message = ''Password not set for this user''
               then \<lparr>auth_status = 401,
                     auth_payload = AuthError ''Unauthorized'' ''Invalid email or password''\<rparr>
               else \<lparr>auth_status = 500,
                     auth_payload = AuthError ''Internal Server Error'' ''Failed to login''\<rparr>))"

section \<open>Example data\<close>

text \<open>
  A user, a stored connection of that user, a reconnect that brings no refresh token,
  the configuration's defaults, and a state as the connect handler produces it: the
  base64 text of
  \<open>{"state":"abcd","userId":"a0eebc99-9c0b-4ef8-bb6d-6bb9bd380a11"}\<close>.
\<close>

definition exampleUserId :: string where
  "exampleUserId = ''a0eebc99-9c0b-4ef8-bb6d-6bb9bd380a11''"

definition exampleRowId :: string where
  "exampleRowId = ''11111111-1111-4111-8111-111111111111''"

definition exampleNewId :: string where
  "exampleNewId = ''22222222-2222-4222-8222-222222222222''"

definition exampleAccounts :: users_table where
  "exampleAccounts =
     [\<lparr>u_id = exampleUserId, u_email = ''ann@b.com'', u_name = ''Ann'',
       u_passwordHash = Some ''$2b$10$secret'',
       u_preferences = \<lparr>brand_voice = Some ''professional'', tone = Some ''informative'',
                        default_hashtags = Some [], banned_phrases = None\<rparr>,
       u_createdAt = 0, u_updatedAt = 0\<rparr>]"

definition exampleRow :: oauth_row where
  "exampleRow =
     \<lparr>rowId = exampleRowId, userId = exampleUserId, provider = linkedin,
      providerUserId = ''li-A'', accessToken = ''tok1'', refreshToken = Some ''r1'',
      tokenExpiresAt = Some 1000,
      scopes = Some [''openid'', ''profile'', ''email'', ''w_member_social''],
      createdAt = 0, updatedAt = 0\<rparr>"

definition exampleData :: store_data where
  "exampleData =
     \<lparr>data_providerUserId = ''li-B'', data_accessToken = ''tok2'',
      data_refreshToken = None, data_expiresIn = Some 3600,
      data_scopes = [''openid'', ''profile'', ''email'', ''w_member_social'']\<rparr>"

definition exampleConfig :: linkedin_config where
  "exampleConfig =
     \<lparr>clientId = [], clientSecret = [],
      callbackUrl = ''http://localhost:3000/auth/linkedin/callback''\<rparr>"

definition exampleState :: string where
  "exampleState =
     ''eyJzdGF0ZSI6ImFiY2QiLCJ1c2VySWQiOiJhMGVlYmM5OS05YzBiLTRlZjgtYmI2ZC02YmI5YmQzODBhMTEifQ==''"

definition exampleDecoded :: json where
  "exampleDecoded = JObj [(''state'', JStr ''abcd''), (''userId'', JStr exampleUserId)]"

text \<open>
  A provider that accepts the code \<open>good\<close> and rejects every other, a user-info
  endpoint, the decoding of two states (\<open>e30=\<close> is the base64 text of \<open>{}\<close>), and an
  environment built from them.
\<close>

definition exampleTokenResponse :: "string \<Rightarrow> string + token_json http_response" where
  "exampleTokenResponse code =
     (if code = ''good''
      then Inr \<lparr>resp_ok = True, resp_text = [],
                resp_json = Some \<lparr>access_token = ''tok2'', expires_in = Some 3600,
                                   refresh_token = None, scope = Some ''openid''\<rparr>\<rparr>
      else Inr \<lparr>resp_ok = False, resp_text = ''invalid_request'', resp_json = None\<rparr>)"

definition exampleUserinfoResponse :: "string \<Rightarrow> string + userinfo_json http_response" where
  "exampleUserinfoResponse token =
     Inr \<lparr>resp_ok = True, resp_text = [],
          resp_json = Some \<lparr>sub = ''li-B'', ui_email = ''a@b.com'', ui_name = Some ''Ann'',
                             given_name = None, family_name = None\<rparr>\<rparr>"

definition exampleParseState :: "string \<Rightarrow> json option" where
  "exampleParseState s =
     (if s = ''e30='' then Some (JObj [])
      else if s = exampleState then Some exampleDecoded
      else None)"

definition exampleEnv :: env where
  "exampleEnv =
     \<lparr>fetchToken = exampleTokenResponse,
      fetchUserinfo = exampleUserinfoResponse,
      parseState = exampleParseState,
      encodeState = (\<lambda>nonce uid. if nonce = ''abcd'' \<and> uid = exampleUserId
                                    then exampleState else []),
      randomString = ''abcd'',
      currentTime = 5000,
      generatedId = exampleNewId,
      usersTable = exampleAccounts,
      linkedinConfig = exampleConfig\<rparr>"

definition callbackRequest :: "string \<Rightarrow> string \<Rightarrow> request" where
  "callbackRequest code state =
     \<lparr>user = None, query_code = Some code, query_state = Some state\<rparr>"

definition sessionRequest :: "string \<Rightarrow> request" where
  "sessionRequest uid =
     \<lparr>user = Some \<lparr>jwt_userId = uid, jwt_email = ''a@b.com''\<rparr>,
      query_code = None, query_state = None\<rparr>"

definition exampleIsEmail :: "string \<Rightarrow> bool" where
  "exampleIsEmail s = (CHR ''@'' \<in> set s)"

text \<open>
  A password hashing stand-in, a registration, a users table with a user without a
  password hash and a user with another password, and a login body.
\<close>

definition exampleBcrypt :: bcrypt where
  "exampleBcrypt =
     \<lparr>bcrypt_hash = (\<lambda>password rounds. ''$2b$10$'' @ password),
      bcrypt_compare = (\<lambda>password hash. hash = ''$2b$10$'' @ password)\<rparr>"


definition exampleUsers :: users_table where
  "exampleUsers =
     [\<lparr>u_id = ''uid2'', u_email = ''b@b.com'', u_name = ''Bob'', u_passwordHash = None,
       u_preferences = \<lparr>brand_voice = None, tone = None, default_hashtags = None,
                        banned_phrases = None\<rparr>,
       u_createdAt = 0, u_updatedAt = 0\<rparr>,
      \<lparr>u_id = ''uid3'', u_email = ''c@b.com'', u_name = ''Cy'',
       u_passwordHash = Some ''$2b$10$another'',
       u_preferences = \<lparr>brand_voice = None, tone = None, default_hashtags = None,
                        banned_phrases = None\<rparr>,
       u_createdAt = 0, u_updatedAt = 0\<rparr>]"

definition loginBody :: "string \<Rightarrow> string \<Rightarrow> login_body" where
  "loginBody email password = \<lparr>body_email = Some email, body_password = Some password\<rparr>"

section \<open>Properties\<close>

subsection \<open>Queries on lists of rows\<close>

lemma find_map_preserved:
  assumes "\<And>r. c (f r) = c r"
  shows "find c (map f tbl) = map_option f (find c tbl)"
  using assms by (induction tbl) simp_all

lemma filter_rowId_distinct:
  assumes "distinct (map rowId tbl)" and "x \<in> set tbl"
  shows "filter (\<lambda>r. rowId r = rowId x) tbl = [x]"
  using assms
proof (induction tbl)
  case Nil
  then show ?case by simp
next
  case (Cons a tbl)
  show ?case
  proof (cases "a = x")
    case True
    have "rowId x \<notin> rowId ` set tbl"
      using Cons.prems(1) True by simp
    then have "\<forall>r \<in> set tbl. rowId r \<noteq> rowId x"
      by (metis imageI)
    then have "filter (\<lambda>r. rowId r = rowId x) tbl = []"
      by (simp add: filter_empty_conv)
    with True show ?thesis by simp
  next
    case False
    then have "x \<in> set tbl" using Cons.prems(2) by simp
    moreover from this have "rowId a \<noteq> rowId x"
      using Cons.prems(1) by (metis distinct.simps(2) imageI list.simps(9) set_map)
    ultimately show ?thesis using Cons by simp
  qed
qed

lemma find_Some_mem: "find c tbl = Some x \<Longrightarrow> x \<in> set tbl \<and> c x"
  by (induction tbl) (auto split: if_splits)

lemma find_None_list_ex: "find c tbl = None \<Longrightarrow> \<not> list_ex c tbl"
  by (induction tbl) (auto split: if_splits)

lemma find_append_new: "find c tbl = None \<Longrightarrow> c r \<Longrightarrow> find c (tbl @ [r]) = Some r"
  by (induction tbl) (auto split: if_splits)

lemma varcharIn_short: "charLength s \<le> n \<Longrightarrow> varcharIn n s = Some s"
  by (simp add: varcharIn_def)

lemma dateParam_accepted: "timestampIn t \<Longrightarrow> dateParam (Some t) = Inr t"
  by (simp add: dateParam_def timestampIn_def validDate_def)

lemma dateParam_Inr: "dateParam x = Inr t \<Longrightarrow> x = Some t"
  by (auto simp: dateParam_def split: option.splits if_splits)

lemma uuidIn_exampleUserId: "uuidIn exampleUserId = Some exampleUserId"
  by code_simp

lemma store_update_path:
  assumes "distinct (map rowId tbl)" and f: "find (forUserProvider u p) tbl = Some old"
    and "data_expiresIn d = Some n" and "timestampIn (now + n * 1000)" and "timestampIn now"
    and "textIn (data_accessToken d)" and "textOptIn (data_refreshToken d)"
    and "list_all textIn (data_scopes d)"
  shows "storeOAuthProvider now newId usrs tbl u p d =
           Inr (Some (storeSet now (now + n * 1000) d old old),
                map (\<lambda>r. if rowId r = rowId old then storeSet now (now + n * 1000) d old r
                          else r) tbl)"
proof -
  have m: "old \<in> set tbl" and c: "forUserProvider u p old"
    using f by (simp_all add: find_Some_mem)
  from c obtain uid where uid: "uuidIn u = Some uid"
    by (simp add: forUserProvider_def)
  have flt: "filter (\<lambda>r. rowId r = rowId old) tbl = [old]"
    using assms(1) m by (rule filter_rowId_distinct)
  show ?thesis
    using f uid flt assms(3-8)
    by (simp add: storeOAuthProvider_def updateWhere_def dateParam_accepted)
qed

lemma store_insert_path:
  assumes "newId \<notin> rowId ` set tbl" and f: "find (forUserProvider u p) tbl = None"
    and uid: "uuidIn u = Some uid" and fk: "uid \<in> u_id ` set usrs"
    and "data_expiresIn d = Some n" and "timestampIn (now + n * 1000)"
    and "textIn (data_accessToken d)" and "textOptIn (data_refreshToken d)"
    and "list_all textIn (data_scopes d)"
    and "textIn (data_providerUserId d)" and "charLength (data_providerUserId d) \<le> 255"
    and r: "r = \<lparr>rowId = newId, userId = uid, provider = p,
                   providerUserId = data_providerUserId d,
                   accessToken = data_accessToken d,
                   refreshToken = data_refreshToken d,
                   tokenExpiresAt = Some (now + n * 1000),
                   scopes = Some (data_scopes d),
                   createdAt = now, updatedAt = now\<rparr>"
  shows "storeOAuthProvider now newId usrs tbl u p d = Inr (Some r, tbl @ [r])"
proof -
  have pk: "\<not> list_ex (\<lambda>x. rowId x = newId) tbl"
    using assms(1) by (auto simp: list_ex_iff)
  have "\<not> list_ex (forUserProvider u p) tbl"
    using f by (rule find_None_list_ex)
  then have uq: "\<not> list_ex (\<lambda>x. userId x = uid \<and> provider x = p) tbl"
    using uid by (auto simp: list_ex_iff forUserProvider_def)
  have fk': "list_ex (\<lambda>x. u_id x = uid) usrs"
    using fk by (auto simp: list_ex_iff)
  have ins: "insertRow usrs tbl r = Inr (r, tbl @ [r])"
    using pk uq fk' assms(7-11) r
    by (simp add: insertRow_def varcharIn_short)
  show ?thesis
    using f uid assms(5,6) ins r
    by (simp add: storeOAuthProvider_def Let_def dateParam_accepted)
qed

subsection \<open>The credential store\<close>

text \<open>
  C1, as the code has it. Take a table whose keys are distinct, a key for the new row
  that is not in use, a user id that is the \<open>uuid\<close> of an existing user, and values the
  columns accept: a clock within the years 0001 to 9999, an \<open>expiresIn\<close> that is
  present and gives, with the clock, a timestamp of those years, texts without the
  zero byte, and a provider user id of at most 255 characters. Then \<open>storeOAuthProvider\<close> succeeds, and \<open>getOAuthProvider\<close> for
  the same user and provider returns the record the store returned. Its user id is the
  user's \<open>uuid\<close>; its access token, its expiry (the clock plus \<open>expiresIn\<close> seconds) and
  its scopes are the values stored; its refresh token is the one stored when that one
  is present and not empty, and the prior row's refresh token when a row existed and
  the store brought none; when no row existed, the refresh token and the provider user
  id are the values stored.
\<close>

theorem storeOAuthProvider_then_get:
  assumes "distinct (map rowId tbl)" and "newId \<notin> rowId ` set tbl"
    and "uuidIn u = Some uid" and "uid \<in> u_id ` set usrs"
    and "data_expiresIn d = Some n" and "timestampIn (now + n * 1000)" and "timestampIn now"
    and "textIn (data_accessToken d)" and "textOptIn (data_refreshToken d)"
    and "list_all textIn (data_scopes d)"
    and "textIn (data_providerUserId d)" and "charLength (data_providerUserId d) \<le> 255"
  shows "\<exists>r tbl'. storeOAuthProvider now newId usrs tbl u p d = Inr (Some r, tbl')
      \<and> getOAuthProvider tbl' u p = Some r
      \<and> userId r = uid \<and> provider r = p
      \<and> accessToken r = data_accessToken d
      \<and> tokenExpiresAt r = Some (now + n * 1000)
      \<and> scopes r = Some (data_scopes d)
      \<and> (truthy (data_refreshToken d) \<longrightarrow> refreshToken r = data_refreshToken d)
      \<and> (\<forall>old. getOAuthProvider tbl u p = Some old \<and> \<not> truthy (data_refreshToken d)
             \<longrightarrow> refreshToken r = refreshToken old)
      \<and> (getOAuthProvider tbl u p = None
             \<longrightarrow> refreshToken r = data_refreshToken d
               \<and> providerUserId r = data_providerUserId d)"
proof (cases "find (forUserProvider u p) tbl")
  case None
  show ?thesis
    unfolding store_insert_path[OF assms(2) None assms(3,4,5,6,8,9,10,11,12) refl]
    using None assms(3)
    by (simp add: getOAuthProvider_def find_append_new forUserProvider_def)
next
  case (Some old)
  have c: "forUserProvider u p old" using Some by (simp add: find_Some_mem)
  let ?f = "\<lambda>r. if rowId r = rowId old then storeSet now (now + n * 1000) d old r else r"
  have pres: "\<And>r. forUserProvider u p (?f r) = forUserProvider u p r"
    by (simp add: storeSet_def forUserProvider_def)
  have g: "getOAuthProvider (map ?f tbl) u p = Some (storeSet now (now + n * 1000) d old old)"
    unfolding getOAuthProvider_def
    by (simp add: find_map_preserved[of "forUserProvider u p" ?f, OF pres] Some)
  show ?thesis
    unfolding store_update_path[OF assms(1) Some assms(5,6,7,8,9,10)]
    using c g Some assms(3)
    by (simp add: getOAuthProvider_def storeSet_def forUserProvider_def)
qed

text \<open>
  The theorem at a reconnect of the example user that omits the refresh token: the
  record returned and stored keeps \<open>r1\<close>.
\<close>

theorem storeOAuthProvider_then_get_witness:
  "distinct (map rowId [exampleRow]) \<and> exampleNewId \<notin> rowId ` set [exampleRow]
   \<and> uuidIn exampleUserId = Some exampleUserId
   \<and> exampleUserId \<in> u_id ` set exampleAccounts
   \<and> data_expiresIn exampleData = Some 3600
   \<and> timestampIn (5000 + 3600 * 1000) \<and> timestampIn 5000
   \<and> textIn (data_accessToken exampleData) \<and> textOptIn (data_refreshToken exampleData)
   \<and> list_all textIn (data_scopes exampleData)
   \<and> textIn (data_providerUserId exampleData)
   \<and> charLength (data_providerUserId exampleData) \<le> 255
   \<and> getOAuthProvider [exampleRow] exampleUserId linkedin = Some exampleRow
   \<and> \<not> truthy (data_refreshToken exampleData)
   \<and> (\<exists>r tbl'. storeOAuthProvider 5000 exampleNewId exampleAccounts [exampleRow]
                    exampleUserId linkedin exampleData
                    = Inr (Some r, tbl')
          \<and> getOAuthProvider tbl' exampleUserId linkedin = Some r
          \<and> refreshToken r = Some ''r1'')"
proof -
  have h1: "distinct (map rowId [exampleRow])" by simp
  have h2: "exampleNewId \<notin> rowId ` set [exampleRow]"
    by (simp add: exampleRow_def exampleNewId_def exampleRowId_def)
  note h3 = uuidIn_exampleUserId
  have h4: "exampleUserId \<in> u_id ` set exampleAccounts"
    by (simp add: exampleAccounts_def)
  have h5: "data_expiresIn exampleData = Some 3600" by (simp add: exampleData_def)
  have h6: "timestampIn (5000 + 3600 * 1000)" by (simp add: timestampIn_def)
  have h7: "timestampIn 5000" by (simp add: timestampIn_def)
  have h8: "textIn (data_accessToken exampleData)" by (simp add: exampleData_def textIn_def)
  have h9: "textOptIn (data_refreshToken exampleData)" by (simp add: exampleData_def)
  have h10: "list_all textIn (data_scopes exampleData)"
    by (simp add: exampleData_def textIn_def)
  have h11: "textIn (data_providerUserId exampleData)"
    by (simp add: exampleData_def textIn_def)
  have h12: "charLength (data_providerUserId exampleData) \<le> 255"
    by (simp add: exampleData_def charLength_def)
  have g: "getOAuthProvider [exampleRow] exampleUserId linkedin = Some exampleRow"
    by (simp add: getOAuthProvider_def forUserProvider_def uuidIn_exampleUserId exampleRow_def)
  have t: "\<not> truthy (data_refreshToken exampleData)" by (simp add: exampleData_def)
  have old: "refreshToken exampleRow = Some ''r1''" by (simp add: exampleRow_def)
  from storeOAuthProvider_then_get[OF h1 h2 h3 h4 h5 h6 h7 h8 h9 h10 h11 h12, of linkedin]
  obtain r tbl' where
    "storeOAuthProvider 5000 exampleNewId exampleAccounts [exampleRow] exampleUserId linkedin
       exampleData = Inr (Some r, tbl')"
    "getOAuthProvider tbl' exampleUserId linkedin = Some r"
    "\<forall>old. getOAuthProvider [exampleRow] exampleUserId linkedin = Some old
             \<and> \<not> truthy (data_refreshToken exampleData)
           \<longrightarrow> refreshToken r = refreshToken old"
    by blast
  with g t old have c:
    "\<exists>r tbl'. storeOAuthProvider 5000 exampleNewId exampleAccounts [exampleRow]
                    exampleUserId linkedin exampleData
                    = Inr (Some r, tbl')
          \<and> getOAuthProvider tbl' exampleUserId linkedin = Some r
          \<and> refreshToken r = Some ''r1''"
    by auto
  show ?thesis
    by (intro conjI h1 h2 h3 h4 h5 h6 h7 h8 h9 h10 h11 h12 g t c)
qed

text \<open>
  C1 as stated fails for the provider user id: a reconnect of the example user with the
  provider account \<open>li-B\<close> and the refresh token \<open>r2\<close> leaves the row's provider user id
  \<open>li-A\<close>.
\<close>

theorem storeOAuthProvider_keeps_providerUserId:
  "storeOAuthProvider 5000 exampleNewId exampleAccounts [exampleRow] exampleUserId linkedin
       (exampleData\<lparr>data_refreshToken := Some ''r2''\<rparr>)
     = Inr (Some (exampleRow\<lparr>accessToken := ''tok2'', refreshToken := Some ''r2'',
                              tokenExpiresAt := Some 3605000, updatedAt := 5000\<rparr>),
            [exampleRow\<lparr>accessToken := ''tok2'', refreshToken := Some ''r2'',
                        tokenExpiresAt := Some 3605000, updatedAt := 5000\<rparr>])
   \<and> getOAuthProvider [exampleRow\<lparr>accessToken := ''tok2'', refreshToken := Some ''r2'',
                                    tokenExpiresAt := Some 3605000, updatedAt := 5000\<rparr>]
         exampleUserId linkedin
     = Some (exampleRow\<lparr>accessToken := ''tok2'', refreshToken := Some ''r2'',
                         tokenExpiresAt := Some 3605000, updatedAt := 5000\<rparr>)
   \<and> providerUserId (exampleRow\<lparr>accessToken := ''tok2'', refreshToken := Some ''r2'',
                                  tokenExpiresAt := Some 3605000, updatedAt := 5000\<rparr>)
     \<noteq> data_providerUserId (exampleData\<lparr>data_refreshToken := Some ''r2''\<rparr>)"
  by (simp add: storeOAuthProvider_def getOAuthProvider_def forUserProvider_def
      uuidIn_exampleUserId updateWhere_def storeSet_def dateParam_def validDate_def
      timestampIn_def textIn_def exampleRow_def exampleData_def)

text \<open>
  What the store refuses: a user id that is not a \<open>uuid\<close>, a missing \<open>expiresIn\<close>, an
  expiry outside the timestamps, and, when no row exists yet, a user that does not
  exist or a provider user id that does not fit its column. Nothing is written then.
\<close>

lemma storeOAuthProvider_refuses_user:
  assumes "uuidIn u = None"
  shows "storeOAuthProvider now newId usrs tbl u p d = Inl ''invalid input syntax for type uuid''"
  using assms by (simp add: storeOAuthProvider_def)

lemma storeOAuthProvider_refuses_expiry:
  assumes "data_expiresIn d = None \<or> (\<exists>n. data_expiresIn d = Some n \<and> \<not> timestampIn (now + n * 1000))"
  shows "isl (storeOAuthProvider now newId usrs tbl u p d)"
proof -
  have "isl (dateParam (map_option (\<lambda>n. now + n * 1000) (data_expiresIn d)))"
    using assms by (auto simp: dateParam_def)
  then show ?thesis
    by (auto simp: storeOAuthProvider_def Let_def isl_def split: option.splits)
qed

lemma storeOAuthProvider_refuses_insert:
  assumes "find (forUserProvider u p) tbl = None"
    and "(\<forall>uid. uuidIn u = Some uid \<longrightarrow> uid \<notin> u_id ` set usrs)
         \<or> varcharIn 255 (data_providerUserId d) = None"
  shows "isl (storeOAuthProvider now newId usrs tbl u p d)"
proof (cases "uuidIn u")
  case None
  then show ?thesis by (simp add: storeOAuthProvider_def)
next
  case (Some uid)
  have "\<not> list_ex (\<lambda>x. u_id x = uid) usrs \<or> varcharIn 255 (data_providerUserId d) = None"
    using assms(2) Some by (auto simp: list_ex_iff image_iff)
  then have ins: "\<And>r. userId r = uid \<Longrightarrow> providerUserId r = data_providerUserId d
          \<Longrightarrow> isl (insertRow usrs tbl r)"
    by (auto simp: insertRow_def split: option.splits)
  show ?thesis
  proof (cases "dateParam (map_option (\<lambda>n. now + n * 1000) (data_expiresIn d))")
    case (Inl e)
    then show ?thesis
      using assms(1) Some by (simp add: storeOAuthProvider_def)
  next
    case (Inr expires)
    let ?r = "\<lparr>rowId = newId, userId = uid, provider = p,
                providerUserId = data_providerUserId d,
                accessToken = data_accessToken d,
                refreshToken = data_refreshToken d,
                tokenExpiresAt = Some expires,
                scopes = Some (data_scopes d),
                createdAt = now, updatedAt = now\<rparr>"
    have "isl (insertRow usrs tbl ?r)" by (rule ins) simp_all
    then obtain e where "insertRow usrs tbl ?r = Inl e" by (auto simp: isl_def)
    then show ?thesis
      using assms(1) Some Inr by (simp add: storeOAuthProvider_def Let_def)
  qed
qed

lemma storeOAuthProvider_refuses_example:
  "storeOAuthProvider 5000 exampleNewId exampleAccounts [] ''u1'' linkedin exampleData
     = Inl ''invalid input syntax for type uuid''
   \<and> storeOAuthProvider 5000 exampleNewId exampleAccounts [exampleRow] exampleUserId linkedin
       (exampleData\<lparr>data_expiresIn := Some 10000000000000\<rparr>)
     = Inl ''RangeError: Invalid time value''
   \<and> storeOAuthProvider 5000 exampleNewId exampleAccounts [exampleRow] exampleUserId linkedin
       (exampleData\<lparr>data_expiresIn := None\<rparr>)
     = Inl ''RangeError: Invalid time value''
   \<and> storeOAuthProvider 5000 exampleNewId [] [] exampleUserId linkedin exampleData
     = Inl ''insert or update on table oauth_providers violates foreign key constraint''"
proof -
  have u1: "uuidIn ''u1'' = None" by code_simp
  have g: "find (forUserProvider exampleUserId linkedin) [exampleRow] = Some exampleRow"
    by (simp add: forUserProvider_def uuidIn_exampleUserId exampleRow_def)
  show ?thesis
    using g
    by (simp add: storeOAuthProvider_def u1 uuidIn_exampleUserId dateParam_def validDate_def
        timestampIn_def insertRow_def textIn_def varcharIn_def charLength_def Let_def
        exampleData_def)
qed

subsection \<open>Expiry\<close>

text \<open>
  C5. For every connection and every current time, the expiry test is true exactly when
  the connection has no expiry timestamp or the current time is at or past it, and false
  otherwise.
\<close>

theorem isTokenExpired_iff:
  "isTokenExpired now (tokenExpiresAt c) =
     (tokenExpiresAt c = None \<or> (\<exists>t. tokenExpiresAt c = Some t \<and> t \<le> now))"
  by (cases "tokenExpiresAt c") (simp_all add: isTokenExpired_def)

subsection \<open>The authorization URL\<close>

lemma getLinkedInAuthUrl_unfold:
  "getLinkedInAuthUrl cfg s =
     ''https://www.linkedin.com/oauth/v2/authorization?response_type=code&client_id='' @
     urlencode (clientId cfg) @ ''&redirect_uri='' @ urlencode (callbackUrl cfg) @
     ''&state='' @ urlencode s @ ''&scope=openid+profile+email+w_member_social''"
  by (simp add: getLinkedInAuthUrl_def serializeParams_def urlencode_def encodeByte_def
      unreservedChar_def)

lemma urlencode_unreserved: "list_all unreservedChar s \<Longrightarrow> urlencode s = s"
proof (induction s)
  case Nil
  then show ?case by (simp add: urlencode_def)
next
  case (Cons c s)
  then have "unreservedChar c" by simp
  then have "encodeByte c = [c]"
    by (auto simp: encodeByte_def unreservedChar_def)
  with Cons show ?case by (simp add: urlencode_def)
qed

text \<open>
  C7, as the code has it. For every state string the URL is the authorization endpoint
  followed by \<open>response_type=code\<close>, the client id, the redirect URI, the state and the
  scopes, each value form-urlencoded; the URL is a function of the configuration and
  the state alone. It contains \<open>state=\<close> followed by the encoded state, and it contains
  the state verbatim when every character of the state is one the encoding leaves as it
  is.
\<close>

theorem getLinkedInAuthUrl_shape:
  "getLinkedInAuthUrl cfg s =
     ''https://www.linkedin.com/oauth/v2/authorization?response_type=code&client_id='' @
     urlencode (clientId cfg) @ ''&redirect_uri='' @ urlencode (callbackUrl cfg) @
     ''&state='' @ urlencode s @ ''&scope=openid+profile+email+w_member_social''
   \<and> sublist (''state='' @ urlencode s) (getLinkedInAuthUrl cfg s)
   \<and> (list_all unreservedChar s \<longrightarrow> sublist s (getLinkedInAuthUrl cfg s))"
proof (intro conjI impI)
  show "getLinkedInAuthUrl cfg s =
     ''https://www.linkedin.com/oauth/v2/authorization?response_type=code&client_id='' @
     urlencode (clientId cfg) @ ''&redirect_uri='' @ urlencode (callbackUrl cfg) @
     ''&state='' @ urlencode s @ ''&scope=openid+profile+email+w_member_social''"
    by (rule getLinkedInAuthUrl_unfold)
next
  let ?pre = "''https://www.linkedin.com/oauth/v2/authorization?response_type=code&client_id='' @
     urlencode (clientId cfg) @ ''&redirect_uri='' @ urlencode (callbackUrl cfg) @ ''&''"
  have "getLinkedInAuthUrl cfg s = ?pre @ (''state='' @ urlencode s) @ 
       ''&scope=openid+profile+email+w_member_social''"
    by (simp add: getLinkedInAuthUrl_unfold)
  then show "sublist (''state='' @ urlencode s) (getLinkedInAuthUrl cfg s)"
    by (metis sublist_appendI)
next
  assume a: "list_all unreservedChar s"
  let ?pre = "''https://www.linkedin.com/oauth/v2/authorization?response_type=code&client_id='' @
     urlencode (clientId cfg) @ ''&redirect_uri='' @ urlencode (callbackUrl cfg) @ ''&state=''"
  have "getLinkedInAuthUrl cfg s = ?pre @ s @ ''&scope=openid+profile+email+w_member_social''"
    by (simp add: getLinkedInAuthUrl_unfold urlencode_unreserved[OF a])
  then show "sublist s (getLinkedInAuthUrl cfg s)"
    by (metis sublist_appendI)
qed


theorem getLinkedInAuthUrl_shape_witness:
  "list_all unreservedChar ''abc123'' \<and> sublist ''abc123'' (getLinkedInAuthUrl exampleConfig ''abc123'')"
proof -
  have h: "list_all unreservedChar ''abc123''"
    by (simp add: unreservedChar_def)
  have "list_all unreservedChar ''abc123'' \<longrightarrow>
          sublist ''abc123'' (getLinkedInAuthUrl exampleConfig ''abc123'')"
    using getLinkedInAuthUrl_shape[of exampleConfig "''abc123''"] by blast
  with h show ?thesis by blast
qed


text \<open>
  The connect handler answers a session with the URL built from the encoded state, and
  with that state.
\<close>

lemma linkedInConnect_reply:
  assumes "requestUserId req = Some uid"
  shows "linkedInConnect e req =
           \<lparr>status = 200,
            payload = ConnectData
              (getLinkedInAuthUrl (linkedinConfig e) (encodeState e (randomString e) uid))
              (encodeState e (randomString e) uid)\<rparr>"
  using assms by (simp add: linkedInConnect_def Let_def)

lemma linkedInConnect_example:
  "linkedInConnect exampleEnv (sessionRequest exampleUserId) =
     \<lparr>status = 200,
      payload = ConnectData (getLinkedInAuthUrl exampleConfig exampleState) exampleState\<rparr>"
  by (simp add: linkedInConnect_def Let_def requestUserId_def sessionRequest_def
      exampleEnv_def exampleUserId_def)

text \<open>
  C7 as stated fails for a state the connect handler produces: the base64 padding
  \<open>==\<close> is written \<open>%3D%3D\<close>, and the state is not a substring of the URL.
\<close>

theorem getLinkedInAuthUrl_not_verbatim:
  "\<not> sublist exampleState (getLinkedInAuthUrl exampleConfig exampleState)"
  by code_simp

subsection \<open>The example environment\<close>

lemma example_exchange_bogus:
  "exchangeLinkedInCode (fetchToken exampleEnv) ''bogus'' = Inl ''Failed to exchange code: invalid_request''"
  by (simp add: exchangeLinkedInCode_def exampleEnv_def exampleTokenResponse_def)

lemma example_exchange_good:
  "exchangeLinkedInCode (fetchToken exampleEnv) ''good''
     = Inr \<lparr>td_accessToken = ''tok2'', td_expiresIn = Some 3600, td_refreshToken = None\<rparr>"
  by (simp add: exchangeLinkedInCode_def exampleEnv_def exampleTokenResponse_def)

lemma example_profile:
  "getLinkedInProfile (fetchUserinfo exampleEnv) t
     = Inr \<lparr>profile_id = ''li-B'', profile_email = ''a@b.com'', profile_name = ''Ann''\<rparr>"
  by (simp add: getLinkedInProfile_def exampleEnv_def exampleUserinfoResponse_def)

lemma example_codeAndState:
  "codeAndState (callbackRequest c exampleState) = (if c = [] then None else Some (c, exampleState))"
  by (simp add: codeAndState_def callbackRequest_def exampleState_def)

lemma example_parse:
  "parseState exampleEnv exampleState = Some exampleDecoded"
  by (simp add: exampleEnv_def exampleParseState_def exampleState_def)

lemma example_getProp:
  "getProp exampleDecoded ''userId'' = Inr (Some (JStr exampleUserId))"
  by (simp add: exampleDecoded_def)

lemma example_callback_good:
  "linkedInCallback exampleEnv [] (callbackRequest ''good'' exampleState)
     = (\<lparr>status = 200,
         payload = CallbackData ''LinkedIn account connected successfully'' ''linkedin''
                     ''a@b.com'' ''Ann''\<rparr>,
        [\<lparr>rowId = exampleNewId, userId = exampleUserId, provider = linkedin,
          providerUserId = ''li-B'', accessToken = ''tok2'', refreshToken = None, tokenExpiresAt = Some 3605000,
          scopes = Some [''openid'', ''profile'', ''email'', ''w_member_social''],
          createdAt = 5000, updatedAt = 5000\<rparr>])"
proof -
  have st: "storeOAuthProvider 5000 exampleNewId exampleAccounts [] exampleUserId linkedin
              \<lparr>data_providerUserId = ''li-B'', data_accessToken = ''tok2'',
               data_refreshToken = None, data_expiresIn = Some 3600,
               data_scopes = callbackScopes\<rparr>
            = Inr (Some \<lparr>rowId = exampleNewId, userId = exampleUserId, provider = linkedin,
                          providerUserId = ''li-B'', accessToken = ''tok2'',
                          refreshToken = None, tokenExpiresAt = Some 3605000,
                          scopes = Some callbackScopes,
                          createdAt = 5000, updatedAt = 5000\<rparr>,
                   [\<lparr>rowId = exampleNewId, userId = exampleUserId, provider = linkedin,
                     providerUserId = ''li-B'', accessToken = ''tok2'',
                     refreshToken = None, tokenExpiresAt = Some 3605000,
                     scopes = Some callbackScopes,
                     createdAt = 5000, updatedAt = 5000\<rparr>])"
    by (simp add: storeOAuthProvider_def uuidIn_exampleUserId dateParam_def validDate_def
        timestampIn_def insertRow_def textIn_def varcharIn_def charLength_def
        callbackScopes_def exampleAccounts_def Let_def)
  have env: "currentTime exampleEnv = 5000" "generatedId exampleEnv = exampleNewId"
    "usersTable exampleEnv = exampleAccounts"
    by (simp_all add: exampleEnv_def)
  show ?thesis
    by (simp add: linkedInCallback_def example_codeAndState example_parse
        example_getProp example_exchange_good example_profile storeForDecoded_def env st)
       (simp add: callbackScopes_def)
qed

subsection \<open>The callback: the state\<close>

text \<open>
  A state that does not parse, or that parses to \<open>null\<close>, is answered with 400 and the
  table is left as it was.
\<close>

lemma linkedInCallback_undecodable:
  assumes "codeAndState req = Some (code, state)"
    and "parseState e state = None \<or> (\<exists>j. parseState e state = Some j \<and> isl (getProp j ''userId''))"
  shows "linkedInCallback e tbl req = (badRequest ''Invalid state parameter'', tbl)"
  using assms by (auto simp: linkedInCallback_def isl_def)

text \<open>
  A state that parses to a value without \<open>userId\<close> is not rejected: the handler goes
  on to the provider, and every way out answers 500.
\<close>

lemma linkedInCallback_missing_userId_not_400:
  assumes "codeAndState req = Some (code, state)" "parseState e state = Some j"
     "getProp j ''userId'' = Inr None"
  shows "status (fst (linkedInCallback e tbl req)) = 500 \<and> snd (linkedInCallback e tbl req) = tbl"
  using assms
  by (simp add: linkedInCallback_def storeForDecoded_def callbackFailed_def 
      split: sum.splits option.splits)

text \<open>
  C2. The claim asks for a 400 when the decoded state lacks the user id. At the state
  \<open>e30=\<close> (the object \<open>{}\<close>) and a code the provider rejects, the handler has called
  the token endpoint and answers 500 with the provider's error text; the table is
  unchanged.
\<close>

theorem linkedInCallback_state_without_userId:
  "linkedInCallback exampleEnv [exampleRow] (callbackRequest ''bogus'' ''e30='')
     = (callbackFailed ''Failed to exchange code: invalid_request'', [exampleRow])
   \<and> status (callbackFailed ''Failed to exchange code: invalid_request'') = 500"
  by (simp add: linkedInCallback_def codeAndState_def exchangeLinkedInCode_def
      callbackFailed_def exampleEnv_def exampleParseState_def exampleTokenResponse_def
      callbackRequest_def)

subsection \<open>The callback: failures of the provider\<close>

text \<open>
  C3. When the handler has the code, the state decodes, and the code exchange fails, or
  the exchange succeeds and the profile fetch fails, the reply is the server error 500
  with that failure's message and the table is unchanged. Whenever the table after the
  callback differs from the table before, the exchange and the profile fetch both
  succeeded.
\<close>

theorem linkedInCallback_failure_atomic:
  "(codeAndState req = Some (code, state) \<and> parseState e state = Some j
      \<and> getProp j ''userId'' = Inr v
      \<and> (exchangeLinkedInCode (fetchToken e) code = Inl err
           \<or> (\<exists>td. exchangeLinkedInCode (fetchToken e) code = Inr td
                 \<and> getLinkedInProfile (fetchUserinfo e) (td_accessToken td) = Inl err))
     \<longrightarrow> linkedInCallback e tbl req = (callbackFailed err, tbl)
         \<and> status (callbackFailed err) = 500)
   \<and> (snd (linkedInCallback e tbl req) \<noteq> tbl
     \<longrightarrow> (\<exists>c td p. query_code req = Some c
            \<and> exchangeLinkedInCode (fetchToken e) c = Inr td
            \<and> getLinkedInProfile (fetchUserinfo e) (td_accessToken td) = Inr p))"
proof (intro conjI impI)
  assume a: "codeAndState req = Some (code, state) \<and> parseState e state = Some j
      \<and> getProp j ''userId'' = Inr v
      \<and> (exchangeLinkedInCode (fetchToken e) code = Inl err
           \<or> (\<exists>td. exchangeLinkedInCode (fetchToken e) code = Inr td
                 \<and> getLinkedInProfile (fetchUserinfo e) (td_accessToken td) = Inl err))"
  then show "linkedInCallback e tbl req = (callbackFailed err, tbl)"
    by (auto simp: linkedInCallback_def)
  show "status (callbackFailed err) = 500" by (simp add: callbackFailed_def)
next
  assume b: "snd (linkedInCallback e tbl req) \<noteq> tbl"
  then obtain c s where cs: "codeAndState req = Some (c, s)"
    by (cases "codeAndState req") (auto simp: linkedInCallback_def)
  then have qc: "query_code req = Some c"
    by (auto simp: codeAndState_def split: option.splits if_splits)
  from b cs obtain td where td: "exchangeLinkedInCode (fetchToken e) c = Inr td"
    by (cases "exchangeLinkedInCode (fetchToken e) c")
       (auto simp: linkedInCallback_def split: option.splits sum.splits)
  from b cs td obtain p where "getLinkedInProfile (fetchUserinfo e) (td_accessToken td) = Inr p"
    by (cases "getLinkedInProfile (fetchUserinfo e) (td_accessToken td)")
       (auto simp: linkedInCallback_def split: option.splits sum.splits)
  with qc td show "\<exists>c td p. query_code req = Some c
            \<and> exchangeLinkedInCode (fetchToken e) c = Inr td
            \<and> getLinkedInProfile (fetchUserinfo e) (td_accessToken td) = Inr p"
    by blast
qed

text \<open>
  The theorem at a code the provider rejects, and at one it accepts.
\<close>

theorem linkedInCallback_failure_atomic_witness:
  "codeAndState (callbackRequest ''bogus'' exampleState) = Some (''bogus'', exampleState)
   \<and> parseState exampleEnv exampleState
       = Some (exampleDecoded)
   \<and> getProp exampleDecoded ''userId''
       = Inr (Some (JStr exampleUserId))
   \<and> exchangeLinkedInCode (fetchToken exampleEnv) ''bogus''
       = Inl ''Failed to exchange code: invalid_request''
   \<and> linkedInCallback exampleEnv [exampleRow] (callbackRequest ''bogus'' exampleState)
       = (callbackFailed ''Failed to exchange code: invalid_request'', [exampleRow])
   \<and> snd (linkedInCallback exampleEnv [] (callbackRequest ''good'' exampleState)) \<noteq> []
   \<and> (\<exists>c td p. query_code (callbackRequest ''good'' exampleState) = Some c
          \<and> exchangeLinkedInCode (fetchToken exampleEnv) c = Inr td
          \<and> getLinkedInProfile (fetchUserinfo exampleEnv) (td_accessToken td) = Inr p)"
proof -
  have h1: "codeAndState (callbackRequest ''bogus'' exampleState) = Some (''bogus'', exampleState)"
    by (simp add: example_codeAndState)
  have h3: "getProp exampleDecoded ''userId'' = Inr (Some (JStr exampleUserId))"
    by (rule example_getProp)
  have h5: "snd (linkedInCallback exampleEnv [] (callbackRequest ''good'' exampleState)) \<noteq> []"
    by (simp add: example_callback_good)
  note t1 = linkedInCallback_failure_atomic[THEN conjunct1, rule_format,
      of "callbackRequest ''bogus'' exampleState" "''bogus''" exampleState exampleEnv
         exampleDecoded "Some (JStr exampleUserId)"
         "''Failed to exchange code: invalid_request''" "[exampleRow]"]
  have c1: "linkedInCallback exampleEnv [exampleRow] (callbackRequest ''bogus'' exampleState)
       = (callbackFailed ''Failed to exchange code: invalid_request'', [exampleRow])"
    using t1 h1 example_parse h3 example_exchange_bogus by blast
  note t2 = linkedInCallback_failure_atomic[THEN conjunct2, rule_format,
      of exampleEnv "[]" "callbackRequest ''good'' exampleState"]
  have c2: "\<exists>c td p. query_code (callbackRequest ''good'' exampleState) = Some c
          \<and> exchangeLinkedInCode (fetchToken exampleEnv) c = Inr td
          \<and> getLinkedInProfile (fetchUserinfo exampleEnv) (td_accessToken td) = Inr p"
    using t2 h5 by blast
  show ?thesis
    using h1 example_parse h3 example_exchange_bogus c1 h5 c2 by blast
qed

subsection \<open>The callback: the stored scopes\<close>

lemma storeOAuthProvider_stored:
  assumes "storeOAuthProvider t nid usrs tbl u p d = Inr (x, tbl')"
  shows "\<exists>r. getOAuthProvider tbl' u p = Some r \<and> scopes r = Some (data_scopes d)
            \<and> accessToken r = data_accessToken d"
proof -
  from assms obtain uid where uid: "uuidIn u = Some uid"
    by (cases "uuidIn u") (simp_all add: storeOAuthProvider_def)
  from assms uid obtain expires where
    ex: "dateParam (map_option (\<lambda>n. t + n * 1000) (data_expiresIn d)) = Inr expires"
    by (cases "dateParam (map_option (\<lambda>n. t + n * 1000) (data_expiresIn d))")
       (auto simp: storeOAuthProvider_def Let_def split: option.splits)
  show ?thesis
  proof (cases "find (forUserProvider u p) tbl")
    case None
    let ?r = "\<lparr>rowId = nid, userId = uid, provider = p,
                providerUserId = data_providerUserId d,
                accessToken = data_accessToken d,
                refreshToken = data_refreshToken d,
                tokenExpiresAt = Some expires,
                scopes = Some (data_scopes d),
                createdAt = t, updatedAt = t\<rparr>"
    from assms uid ex None obtain stored where
      ins: "insertRow usrs tbl ?r = Inr (stored, tbl')"
      by (cases "insertRow usrs tbl ?r")
         (auto simp: storeOAuthProvider_def Let_def)
    then obtain pid where st: "stored = ?r\<lparr>providerUserId := pid\<rparr>" and t': "tbl' = tbl @ [stored]"
      by (auto simp: insertRow_def split: if_splits option.splits)
    have "forUserProvider u p stored"
      using st uid by (simp add: forUserProvider_def)
    with None t' have "getOAuthProvider tbl' u p = Some stored"
      by (simp add: getOAuthProvider_def find_append_new)
    then show ?thesis using st by simp
  next
    case (Some old)
    from assms uid ex Some obtain updated where
      up: "dateParam (Some t) = Inr updated"
      by (cases "dateParam (Some t)") (auto simp: storeOAuthProvider_def Let_def)
    let ?f = "\<lambda>r. if rowId r = rowId old then storeSet updated expires d old r else r"
    have pres: "\<And>r. forUserProvider u p (?f r) = forUserProvider u p r"
      by (simp add: storeSet_def forUserProvider_def)
    have "tbl' = map ?f tbl"
      using assms uid ex up Some
      by (auto simp: storeOAuthProvider_def Let_def updateWhere_def split: if_splits)
    then have "getOAuthProvider tbl' u p = Some (storeSet updated expires d old old)"
      unfolding getOAuthProvider_def
      by (simp add: find_map_preserved[of "forUserProvider u p" ?f, OF pres] Some)
    then show ?thesis by (simp add: storeSet_def)
  qed
qed

lemma exchange_ignores_scope:
  "exchangeLinkedInCode (fetchToken (withScope g e)) code = exchangeLinkedInCode (fetchToken e) code"
  by (cases "fetchToken e code")
     (auto simp: withScope_def exchangeLinkedInCode_def split: option.splits)

text \<open>
  C10. After a callback answered with 200 the row of the decoded user for \<open>linkedin\<close>
  holds the scopes \<open>openid\<close>, \<open>profile\<close>, \<open>email\<close>, \<open>w_member_social\<close>; and the
  handler's reply and table are the same whatever the \<open>scope\<close> field of the token
  response is.
\<close>

theorem linkedInCallback_scopes_fixed:
  "(status (fst (linkedInCallback e tbl req)) = 200 \<longrightarrow>
      (\<exists>s j u r. query_state req = Some s \<and> parseState e s = Some j
          \<and> getProp j ''userId'' = Inr (Some (JStr u))
          \<and> getOAuthProvider (snd (linkedInCallback e tbl req)) u linkedin = Some r
          \<and> scopes r = Some [''openid'', ''profile'', ''email'', ''w_member_social'']))
   \<and> linkedInCallback (withScope g e) tbl req = linkedInCallback e tbl req"
proof (intro conjI impI)
  have others: "parseState (withScope g e) = parseState e"
    "fetchUserinfo (withScope g e) = fetchUserinfo e"
    "currentTime (withScope g e) = currentTime e"
    "generatedId (withScope g e) = generatedId e"
    "usersTable (withScope g e) = usersTable e"
    by (simp_all add: withScope_def)
  show "linkedInCallback (withScope g e) tbl req = linkedInCallback e tbl req"
    unfolding linkedInCallback_def exchange_ignores_scope storeForDecoded_def others
    by (rule refl)
next
  assume ok: "status (fst (linkedInCallback e tbl req)) = 200"
  then obtain c s where cs: "codeAndState req = Some (c, s)"
    by (cases "codeAndState req") (auto simp: linkedInCallback_def badRequest_def)
  then have qs: "query_state req = Some s"
    by (auto simp: codeAndState_def split: option.splits if_splits)
  from ok cs obtain j where j: "parseState e s = Some j"
    by (cases "parseState e s") (auto simp: linkedInCallback_def badRequest_def)
  from ok cs j obtain v where v: "getProp j ''userId'' = Inr v"
    by (cases "getProp j ''userId''") (auto simp: linkedInCallback_def badRequest_def)
  from ok cs j v obtain td where td: "exchangeLinkedInCode (fetchToken e) c = Inr td"
    by (cases "exchangeLinkedInCode (fetchToken e) c")
       (auto simp: linkedInCallback_def callbackFailed_def)
  from ok cs j v td obtain p where p: "getLinkedInProfile (fetchUserinfo e) (td_accessToken td) = Inr p"
    by (cases "getLinkedInProfile (fetchUserinfo e) (td_accessToken td)")
       (auto simp: linkedInCallback_def callbackFailed_def)
  let ?d = "\<lparr>data_providerUserId = profile_id p,
             data_accessToken = td_accessToken td,
             data_refreshToken = td_refreshToken td,
             data_expiresIn = td_expiresIn td,
             data_scopes = callbackScopes\<rparr>"
  from ok cs j v td p obtain x tbl' where st: "storeForDecoded e tbl v ?d = Inr (x, tbl')"
    by (cases "storeForDecoded e tbl v ?d")
       (auto simp: linkedInCallback_def callbackFailed_def)
  then obtain u where u: "v = Some (JStr u)"
    and st': "storeOAuthProvider (currentTime e) (generatedId e) (usersTable e) tbl u linkedin ?d
                = Inr (x, tbl')"
    by (auto simp: storeForDecoded_def split: option.splits json.splits)
  have res: "snd (linkedInCallback e tbl req) = tbl'"
    using cs j v td p st by (simp add: linkedInCallback_def)
  from storeOAuthProvider_stored[OF st'] obtain r where
    "getOAuthProvider tbl' u linkedin = Some r" "scopes r = Some callbackScopes"
    by auto
  then show "\<exists>s j u r. query_state req = Some s \<and> parseState e s = Some j
          \<and> getProp j ''userId'' = Inr (Some (JStr u))
          \<and> getOAuthProvider (snd (linkedInCallback e tbl req)) u linkedin = Some r
          \<and> scopes r = Some [''openid'', ''profile'', ''email'', ''w_member_social'']"
    using qs j v u res by (auto simp: callbackScopes_def)
qed

text \<open>The theorem at the accepted code and the example state.\<close>

theorem linkedInCallback_scopes_fixed_witness:
  "status (fst (linkedInCallback exampleEnv [] (callbackRequest ''good'' exampleState))) = 200
   \<and> (\<exists>s j u r. query_state (callbackRequest ''good'' exampleState) = Some s
          \<and> parseState exampleEnv s = Some j
          \<and> getProp j ''userId'' = Inr (Some (JStr u))
          \<and> getOAuthProvider
               (snd (linkedInCallback exampleEnv [] (callbackRequest ''good'' exampleState)))
               u linkedin = Some r
          \<and> scopes r = Some [''openid'', ''profile'', ''email'', ''w_member_social''])"
proof -
  have h: "status (fst (linkedInCallback exampleEnv [] (callbackRequest ''good'' exampleState))) = 200"
    by (simp add: example_callback_good)
  from linkedInCallback_scopes_fixed[THEN conjunct1, rule_format, OF h] h
  show ?thesis by blast
qed

subsection \<open>The status\<close>

text \<open>
  C4. For a request with a session: without a row for the user and \<open>linkedin\<close> the
  reply reports \<open>connected = false\<close> and \<open>canPost = false\<close>; with a row it reports
  \<open>connected = true\<close>, \<open>canPost\<close> is \<open>true\<close> exactly when the token is not expired and
  \<open>w_member_social\<close> is among the stored scopes, and \<open>needsRefresh\<close> is \<open>true\<close> exactly
  when the token is expired.
\<close>

theorem linkedInStatus_report:
  assumes "requestUserId req = Some uid"
  shows "(getOAuthProvider tbl uid linkedin = None \<longrightarrow>
            (\<exists>sd. linkedInStatus e tbl req = \<lparr>status = 200, payload = StatusData sd\<rparr>
                \<and> connected sd = False \<and> canPost sd = Some False))
       \<and> (\<forall>prov. getOAuthProvider tbl uid linkedin = Some prov \<longrightarrow>
            (\<exists>sd. linkedInStatus e tbl req = \<lparr>status = 200, payload = StatusData sd\<rparr>
                \<and> connected sd = True
                \<and> ((canPost sd = Some True) =
                     (\<not> isTokenExpired (currentTime e) (tokenExpiresAt prov)
                      \<and> (\<exists>ss. scopes prov = Some ss \<and> ''w_member_social'' \<in> set ss)))
                \<and> ((needsRefresh sd = Some True) =
                     isTokenExpired (currentTime e) (tokenExpiresAt prov))))"
proof (intro conjI allI impI)
  assume "getOAuthProvider tbl uid linkedin = None"
  then show "\<exists>sd. linkedInStatus e tbl req = \<lparr>status = 200, payload = StatusData sd\<rparr>
                \<and> connected sd = False \<and> canPost sd = Some False"
    using assms by (simp add: linkedInStatus_def)
next
  fix prov
  assume p: "getOAuthProvider tbl uid linkedin = Some prov"
  show "\<exists>sd. linkedInStatus e tbl req = \<lparr>status = 200, payload = StatusData sd\<rparr>
                \<and> connected sd = True
                \<and> ((canPost sd = Some True) =
                     (\<not> isTokenExpired (currentTime e) (tokenExpiresAt prov)
                      \<and> (\<exists>ss. scopes prov = Some ss \<and> ''w_member_social'' \<in> set ss)))
                \<and> ((needsRefresh sd = Some True) =
                     isTokenExpired (currentTime e) (tokenExpiresAt prov))"
    using assms p by (cases "scopes prov") (simp_all add: linkedInStatus_def Let_def)
qed

text \<open>
  The theorem on the empty table, and on a row that expires after the example clock.
\<close>

theorem linkedInStatus_report_witness:
  "requestUserId (sessionRequest exampleUserId) = Some exampleUserId
   \<and> getOAuthProvider [] exampleUserId linkedin = None
   \<and> (\<exists>sd. linkedInStatus exampleEnv [] (sessionRequest exampleUserId)
               = \<lparr>status = 200, payload = StatusData sd\<rparr>
          \<and> connected sd = False \<and> canPost sd = Some False)
   \<and> getOAuthProvider [exampleRow\<lparr>tokenExpiresAt := Some 9000\<rparr>] exampleUserId linkedin
       = Some (exampleRow\<lparr>tokenExpiresAt := Some 9000\<rparr>)
   \<and> \<not> isTokenExpired (currentTime exampleEnv) (Some 9000)
   \<and> (\<exists>sd. linkedInStatus exampleEnv [exampleRow\<lparr>tokenExpiresAt := Some 9000\<rparr>]
                (sessionRequest exampleUserId)
               = \<lparr>status = 200, payload = StatusData sd\<rparr>
          \<and> connected sd = True \<and> canPost sd = Some True \<and> needsRefresh sd \<noteq> Some True)"
proof -
  have h1: "requestUserId (sessionRequest exampleUserId) = Some exampleUserId"
    by (simp add: requestUserId_def sessionRequest_def exampleUserId_def)
  have h2: "getOAuthProvider [] exampleUserId linkedin = None"
    by (simp add: getOAuthProvider_def)
  have h3: "getOAuthProvider [exampleRow\<lparr>tokenExpiresAt := Some 9000\<rparr>] exampleUserId linkedin
       = Some (exampleRow\<lparr>tokenExpiresAt := Some 9000\<rparr>)"
    by (simp add: getOAuthProvider_def forUserProvider_def uuidIn_exampleUserId
        exampleRow_def)
  have h4: "\<not> isTokenExpired (currentTime exampleEnv) (Some 9000)"
    by (simp add: isTokenExpired_def exampleEnv_def)
  have h5: "\<exists>ss. scopes (exampleRow\<lparr>tokenExpiresAt := Some 9000\<rparr>) = Some ss
              \<and> ''w_member_social'' \<in> set ss"
    by (simp add: exampleRow_def)
  have h6: "tokenExpiresAt (exampleRow\<lparr>tokenExpiresAt := Some 9000\<rparr>) = Some 9000"
    by simp
  from linkedInStatus_report[OF h1, of "[]" exampleEnv] h2
  have c1: "\<exists>sd. linkedInStatus exampleEnv [] (sessionRequest exampleUserId)
               = \<lparr>status = 200, payload = StatusData sd\<rparr>
          \<and> connected sd = False \<and> canPost sd = Some False"
    by blast
  from linkedInStatus_report[OF h1, of "[exampleRow\<lparr>tokenExpiresAt := Some 9000\<rparr>]" exampleEnv]
    h3 h4 h5 h6
  have c2: "\<exists>sd. linkedInStatus exampleEnv [exampleRow\<lparr>tokenExpiresAt := Some 9000\<rparr>]
                (sessionRequest exampleUserId)
               = \<lparr>status = 200, payload = StatusData sd\<rparr>
          \<and> connected sd = True \<and> canPost sd = Some True \<and> needsRefresh sd \<noteq> Some True"
    by (metis (no_types, lifting))
  show ?thesis using h1 h2 c1 h3 h4 c2 by blast
qed

subsection \<open>Disconnect\<close>

lemma deleteWhere_absent:
  "find c tbl = None \<Longrightarrow> deleteWhere c tbl = tbl"
  by (induction tbl) (auto simp: deleteWhere_def split: if_splits)

text \<open>
  C9. For a request with a session, disconnect answers 200, leaves no row for the user
  and \<open>linkedin\<close>, and a second disconnect gives the reply and the table of the first;
  when there was no row, the table is unchanged. The delete it runs is idempotent for
  every user and provider.
\<close>

theorem linkedInDisconnect_idempotent:
  assumes "requestUserId req = Some uid"
  shows "status (fst (linkedInDisconnect tbl req)) = 200
       \<and> getOAuthProvider (snd (linkedInDisconnect tbl req)) uid linkedin = None
       \<and> linkedInDisconnect (snd (linkedInDisconnect tbl req)) req = linkedInDisconnect tbl req
       \<and> (getOAuthProvider tbl uid linkedin = None \<longrightarrow>
            snd (linkedInDisconnect tbl req) = tbl)
       \<and> deleteWhere (forUserProvider u p) (deleteWhere (forUserProvider u p) tbl)
           = deleteWhere (forUserProvider u p) tbl"
proof -
  have gone: "find (forUserProvider uid linkedin) (deleteWhere (forUserProvider uid linkedin) tbl) = None"
    by (induction tbl) (simp_all add: deleteWhere_def)
  have twice: "deleteWhere (forUserProvider uid linkedin) (deleteWhere (forUserProvider uid linkedin) tbl)
        = deleteWhere (forUserProvider uid linkedin) tbl"
    by (simp add: deleteWhere_def)
  have any: "deleteWhere (forUserProvider u p) (deleteWhere (forUserProvider u p) tbl)
        = deleteWhere (forUserProvider u p) tbl"
    by (simp add: deleteWhere_def)
  show ?thesis
    using assms gone twice any
    by (simp add: linkedInDisconnect_def getOAuthProvider_def deleteWhere_absent)
qed

text \<open>The theorem on a table with the user's row, and on the empty table.\<close>

theorem linkedInDisconnect_idempotent_witness:
  "requestUserId (sessionRequest exampleUserId) = Some exampleUserId
   \<and> status (fst (linkedInDisconnect [exampleRow] (sessionRequest exampleUserId))) = 200
   \<and> snd (linkedInDisconnect [exampleRow] (sessionRequest exampleUserId)) = []
   \<and> linkedInDisconnect (snd (linkedInDisconnect [exampleRow] (sessionRequest exampleUserId)))
        (sessionRequest exampleUserId)
       = linkedInDisconnect [exampleRow] (sessionRequest exampleUserId)
   \<and> getOAuthProvider [] exampleUserId linkedin = None
   \<and> snd (linkedInDisconnect [] (sessionRequest exampleUserId)) = []"
proof -
  have h1: "requestUserId (sessionRequest exampleUserId) = Some exampleUserId"
    by (simp add: requestUserId_def sessionRequest_def exampleUserId_def)
  have h2: "getOAuthProvider [] exampleUserId linkedin = None"
    by (simp add: getOAuthProvider_def)
  have e: "snd (linkedInDisconnect [exampleRow] (sessionRequest exampleUserId)) = []"
    by (simp add: linkedInDisconnect_def h1 deleteWhere_def forUserProvider_def
        uuidIn_exampleUserId exampleRow_def)
  from linkedInDisconnect_idempotent[OF h1, of "[exampleRow]"]
       linkedInDisconnect_idempotent[OF h1, of "[]"] h1 h2 e
  show ?thesis by blast
qed

subsection \<open>Login and registration\<close>

text \<open>
  C6. For a login body that passes validation, the service's login fails exactly when
  the email is unknown, the record has no password hash, or the password does not
  verify; and in each of these cases the handler's reply is the same: 401,
  \<open>Unauthorized\<close>, \<open>Invalid email or password\<close>.
\<close>

theorem login_failures_indistinguishable:
  assumes "loginSchema isEmail b = Inr (email, password)"
  shows "(isl (login bc tbl email password) =
            (find (\<lambda>x. u_email x = email) tbl = None
             \<or> (\<exists>usr. find (\<lambda>x. u_email x = email) tbl = Some usr
                    \<and> (u_passwordHash usr = None \<or> u_passwordHash usr = Some []))
             \<or> (\<exists>usr hash. find (\<lambda>x. u_email x = email) tbl = Some usr
                    \<and> u_passwordHash usr = Some hash \<and> hash \<noteq> []
                    \<and> \<not> verifyPassword bc password hash)))
       \<and> (isl (login bc tbl email password) \<longrightarrow>
            AuthController_login bc isEmail sign tbl b =
              \<lparr>auth_status = 401,
               auth_payload = AuthError ''Unauthorized'' ''Invalid email or password''\<rparr>)"
proof (intro conjI impI)
  show "isl (login bc tbl email password) =
            (find (\<lambda>x. u_email x = email) tbl = None
             \<or> (\<exists>usr. find (\<lambda>x. u_email x = email) tbl = Some usr
                    \<and> (u_passwordHash usr = None \<or> u_passwordHash usr = Some []))
             \<or> (\<exists>usr hash. find (\<lambda>x. u_email x = email) tbl = Some usr
                    \<and> u_passwordHash usr = Some hash \<and> hash \<noteq> []
                    \<and> \<not> verifyPassword bc password hash))"
    by (auto simp: login_def split: option.splits)
next
  assume "isl (login bc tbl email password)"
  then obtain m where m: "login bc tbl email password = Inl m"
    by (auto simp: isl_def)
  then have "m = ''Invalid email or password'' \<or> m = ''Password not set for this user''"
    by (auto simp: login_def split: option.splits if_splits)
  with m assms show "AuthController_login bc isEmail sign tbl b =
              \<lparr>auth_status = 401,
               auth_payload = AuthError ''Unauthorized'' ''Invalid email or password''\<rparr>"
    by (auto simp: AuthController_login_def)
qed

text \<open>
  The theorem at an unknown email, at a user without a password hash and at a wrong
  password: the service raises two different messages, the replies are one.
\<close>

theorem login_failures_indistinguishable_witness:
  "loginSchema exampleIsEmail (loginBody ''a@b.com'' ''password123'')
     = Inr (''a@b.com'', ''password123'')
   \<and> loginSchema exampleIsEmail (loginBody ''b@b.com'' ''password123'')
     = Inr (''b@b.com'', ''password123'')
   \<and> loginSchema exampleIsEmail (loginBody ''c@b.com'' ''password123'')
     = Inr (''c@b.com'', ''password123'')
   \<and> login exampleBcrypt exampleUsers ''a@b.com'' ''password123''
     = Inl ''Invalid email or password''
   \<and> login exampleBcrypt exampleUsers ''b@b.com'' ''password123''
     = Inl ''Password not set for this user''
   \<and> login exampleBcrypt exampleUsers ''c@b.com'' ''password123''
     = Inl ''Invalid email or password''
   \<and> AuthController_login exampleBcrypt exampleIsEmail (\<lambda>p. ''jwt'') exampleUsers
        (loginBody ''a@b.com'' ''password123'')
     = \<lparr>auth_status = 401,
        auth_payload = AuthError ''Unauthorized'' ''Invalid email or password''\<rparr>
   \<and> AuthController_login exampleBcrypt exampleIsEmail (\<lambda>p. ''jwt'') exampleUsers
        (loginBody ''b@b.com'' ''password123'')
     = \<lparr>auth_status = 401,
        auth_payload = AuthError ''Unauthorized'' ''Invalid email or password''\<rparr>
   \<and> AuthController_login exampleBcrypt exampleIsEmail (\<lambda>p. ''jwt'') exampleUsers
        (loginBody ''c@b.com'' ''password123'')
     = \<lparr>auth_status = 401,
        auth_payload = AuthError ''Unauthorized'' ''Invalid email or password''\<rparr>"
proof -
  have v: "\<And>em. CHR ''@'' \<in> set em \<Longrightarrow>
             loginSchema exampleIsEmail (loginBody em ''password123'') = Inr (em, ''password123'')"
    by (simp add: loginSchema_def exampleIsEmail_def loginBody_def)
  have va: "loginSchema exampleIsEmail (loginBody ''a@b.com'' ''password123'')
     = Inr (''a@b.com'', ''password123'')" by (rule v) simp
  have vb: "loginSchema exampleIsEmail (loginBody ''b@b.com'' ''password123'')
     = Inr (''b@b.com'', ''password123'')" by (rule v) simp
  have vc: "loginSchema exampleIsEmail (loginBody ''c@b.com'' ''password123'')
     = Inr (''c@b.com'', ''password123'')" by (rule v) simp
  have la: "login exampleBcrypt exampleUsers ''a@b.com'' ''password123''
     = Inl ''Invalid email or password''"
    by (simp add: login_def exampleUsers_def)
  have lb: "login exampleBcrypt exampleUsers ''b@b.com'' ''password123''
     = Inl ''Password not set for this user''"
    by (simp add: login_def exampleUsers_def)
  have lc: "login exampleBcrypt exampleUsers ''c@b.com'' ''password123''
     = Inl ''Invalid email or password''"
    by (simp add: login_def exampleUsers_def verifyPassword_def exampleBcrypt_def)
  note t = login_failures_indistinguishable[THEN conjunct2, rule_format]
  have ra: "AuthController_login exampleBcrypt exampleIsEmail (\<lambda>p. ''jwt'') exampleUsers
        (loginBody ''a@b.com'' ''password123'')
     = \<lparr>auth_status = 401,
        auth_payload = AuthError ''Unauthorized'' ''Invalid email or password''\<rparr>"
    by (rule t[OF va]) (simp add: la)
  have rb: "AuthController_login exampleBcrypt exampleIsEmail (\<lambda>p. ''jwt'') exampleUsers
        (loginBody ''b@b.com'' ''password123'')
     = \<lparr>auth_status = 401,
        auth_payload = AuthError ''Unauthorized'' ''Invalid email or password''\<rparr>"
    by (rule t[OF vb]) (simp add: lb)
  have rc: "AuthController_login exampleBcrypt exampleIsEmail (\<lambda>p. ''jwt'') exampleUsers
        (loginBody ''c@b.com'' ''password123'')
     = \<lparr>auth_status = 401,
        auth_payload = AuthError ''Unauthorized'' ''Invalid email or password''\<rparr>"
    by (rule t[OF vc]) (simp add: lc)
  show ?thesis
    by (intro conjI va vb vc la lb lc ra rb rc)
qed



end
